theory Spec2Isabelle
  imports Main "HOL-Library.Sublist" "HOL-Library.Char_ord" "HOL-Library.List_Lexorder"
begin

section \<open>Data model\<close>

text \<open>
  Rows as the relational store returns them and as the components hold them.  Every row has
  an \<open>id\<close> (field \<open>id'\<close> here, since \<open>id\<close> is the identity function of HOL) and the two
  timestamps; rows of an owner carry \<open>profileId\<close>.  A \<open>Date\<close> is its number of milliseconds.
\<close>

record Item =
  id' :: string
  created_at :: nat
  updated_at :: nat

record Owned = Item +
  profileId :: string

record Titled = Owned +
  title :: string

record Todo = Titled +
  completed :: bool
  priority :: string

record Note = Titled +
  content :: string

record Pokemon = Item +
  pokemon_id :: int
  pokemon_name :: string
  image_url :: string
  types :: "string list"
  pokemon_reviews_count :: "nat option"

record Photo = Owned +
  name :: string
  url :: string
  size :: "nat option"
  mime_type :: "string option"

record FoodPhoto = Photo +
  reviews_count :: "nat option"

section \<open>The optimistic reducers of the components\<close>

text \<open>
  The action object of every reducer is \<open>{type: string; <item>?: T; id?: string}\<close>; the
  optional item is called \<open>todo\<close>, \<open>note\<close>, \<open>photo\<close> or \<open>pokemon\<close> in the source.
\<close>

record 'a Action =
  type' :: string
  item :: "'a option"
  actionId :: "string option"

text \<open>\<open>TodoList\<close>, \<open>todo-list.tsx\<close>: \<open>add\<close>, \<open>toggle\<close>, \<open>delete\<close>, \<open>update\<close>, default.\<close>

definition TodoList_reducer :: "Todo list \<Rightarrow> Todo Action \<Rightarrow> Todo list" where
  "TodoList_reducer currentTodos action =
     (if type' action = ''add'' then
        (case item action of Some t \<Rightarrow> t # currentTodos | None \<Rightarrow> currentTodos)
      else if type' action = ''toggle'' then
        map (\<lambda>todo. if Some (id' todo) = actionId action
                      then todo\<lparr>completed := \<not> completed todo\<rparr> else todo) currentTodos
      else if type' action = ''delete'' then
        filter (\<lambda>todo. Some (id' todo) \<noteq> actionId action) currentTodos
      else if type' action = ''update'' then
        map (\<lambda>todo. case item action of
                       Some t \<Rightarrow> if Some (id' todo) = actionId action then t else todo
                     | None \<Rightarrow> todo) currentTodos
      else currentTodos)"

text \<open>\<open>NotesList\<close>: \<open>add\<close>, \<open>delete\<close>, \<open>update\<close>, default.\<close>

definition NotesList_reducer :: "Note list \<Rightarrow> Note Action \<Rightarrow> Note list" where
  "NotesList_reducer currentNotes action =
     (if type' action = ''add'' then
        (case item action of Some n \<Rightarrow> n # currentNotes | None \<Rightarrow> currentNotes)
      else if type' action = ''delete'' then
        filter (\<lambda>note. Some (id' note) \<noteq> actionId action) currentNotes
      else if type' action = ''update'' then
        map (\<lambda>note. case item action of
                       Some n \<Rightarrow> if Some (id' note) = actionId action then n else note
                     | None \<Rightarrow> note) currentNotes
      else currentNotes)"

text \<open>\<open>PhotoGallery\<close>: \<open>add\<close> checks whether the photo already exists.\<close>

definition PhotoGallery_reducer :: "Photo list \<Rightarrow> Photo Action \<Rightarrow> Photo list" where
  "PhotoGallery_reducer currentPhotos action =
     (if type' action = ''add'' then
        (case item action of
           None \<Rightarrow> currentPhotos
         | Some photo \<Rightarrow>
             (let exists = list_ex (\<lambda>p. id' p = id' photo) currentPhotos
              in if exists then currentPhotos else photo # currentPhotos))
      else if type' action = ''delete'' then
        filter (\<lambda>photo. Some (id' photo) \<noteq> actionId action) currentPhotos
      else if type' action = ''update'' then
        map (\<lambda>photo. case item action of
                        Some p \<Rightarrow> if Some (id' photo) = actionId action then p else photo
                      | None \<Rightarrow> photo) currentPhotos
      else currentPhotos)"

text \<open>\<open>FoodReviewGallery\<close>: the same reducer over food photos.\<close>

definition FoodReviewGallery_reducer ::
  "FoodPhoto list \<Rightarrow> FoodPhoto Action \<Rightarrow> FoodPhoto list" where
  "FoodReviewGallery_reducer currentPhotos action =
     (if type' action = ''add'' then
        (case item action of
           None \<Rightarrow> currentPhotos
         | Some photo \<Rightarrow>
             (let exists = list_ex (\<lambda>p. id' p = id' photo) currentPhotos
              in if exists then currentPhotos else photo # currentPhotos))
      else if type' action = ''delete'' then
        filter (\<lambda>photo. Some (id' photo) \<noteq> actionId action) currentPhotos
      else if type' action = ''update'' then
        map (\<lambda>photo. case item action of
                        Some p \<Rightarrow> if Some (id' photo) = actionId action then p else photo
                      | None \<Rightarrow> photo) currentPhotos
      else currentPhotos)"

text \<open>\<open>PokemonReviewGallery\<close>: \<open>add\<close> and \<open>update\<close> only; \<open>delete\<close> falls to the default.\<close>

definition PokemonReviewGallery_reducer ::
  "Pokemon list \<Rightarrow> Pokemon Action \<Rightarrow> Pokemon list" where
  "PokemonReviewGallery_reducer currentPokemon action =
     (if type' action = ''add'' then
        (case item action of
           None \<Rightarrow> currentPokemon
         | Some pokemon \<Rightarrow>
             (let exists = list_ex (\<lambda>p. id' p = id' pokemon) currentPokemon
              in if exists then currentPokemon else pokemon # currentPokemon))
      else if type' action = ''update'' then
        map (\<lambda>p. case item action of
                    Some pokemon \<Rightarrow> if Some (id' p) = actionId action then pokemon else p
                  | None \<Rightarrow> p) currentPokemon
      else currentPokemon)"

section \<open>Deduplication at render time\<close>

text \<open>
  \<open>Array.prototype.findIndex\<close>: the index of the first element satisfying the predicate,
  \<open>-1\<close> when there is none.  \<open>findIndexFrom i\<close> is the loop started at index \<open>i\<close>.
\<close>

fun findIndexFrom :: "int \<Rightarrow> ('a \<Rightarrow> bool) \<Rightarrow> 'a list \<Rightarrow> int" where
  "findIndexFrom i P [] = - 1"
| "findIndexFrom i P (x # xs) = (if P x then i else findIndexFrom (i + 1) P xs)"

definition findIndex :: "('a \<Rightarrow> bool) \<Rightarrow> 'a list \<Rightarrow> int" where
  "findIndex P xs = findIndexFrom 0 P xs"

text \<open>
  \<open>Array.prototype.filter\<close> with the three-argument callback \<open>(element, index, self)\<close>.
\<close>

fun filterFrom :: "int \<Rightarrow> ('a \<Rightarrow> int \<Rightarrow> 'a list \<Rightarrow> bool) \<Rightarrow> 'a list \<Rightarrow> 'a list \<Rightarrow> 'a list" where
  "filterFrom i f self [] = []"
| "filterFrom i f self (x # xs) =
     (if f x i self then x # filterFrom (i + 1) f self xs else filterFrom (i + 1) f self xs)"

definition filterIndexed :: "('a \<Rightarrow> int \<Rightarrow> 'a list \<Rightarrow> bool) \<Rightarrow> 'a list \<Rightarrow> 'a list" where
  "filterIndexed f xs = filterFrom 0 f xs xs"

text \<open>
  \<open>const uniqueNotes = optimisticNotes.filter((note, index, self) =>
     index === self.findIndex((n) => n.id === note.id))\<close>, and the same expression in the
  photo, food-photo and Pokemon galleries.
\<close>

definition uniqueNotes :: "Note list \<Rightarrow> Note list" where
  "uniqueNotes optimisticNotes =
     filterIndexed (\<lambda>note index self. index = findIndex (\<lambda>n. id' n = id' note) self)
       optimisticNotes"

definition PhotoGallery_uniquePhotos :: "Photo list \<Rightarrow> Photo list" where
  "PhotoGallery_uniquePhotos optimisticPhotos =
     filterIndexed (\<lambda>photo index self. index = findIndex (\<lambda>p. id' p = id' photo) self)
       optimisticPhotos"

definition FoodReviewGallery_uniquePhotos :: "FoodPhoto list \<Rightarrow> FoodPhoto list" where
  "FoodReviewGallery_uniquePhotos optimisticFoodPhotos =
     filterIndexed (\<lambda>photo index self. index = findIndex (\<lambda>p. id' p = id' photo) self)
       optimisticFoodPhotos"

definition uniquePokemon :: "Pokemon list \<Rightarrow> Pokemon list" where
  "uniquePokemon optimisticPokemon =
     filterIndexed (\<lambda>p index self. index = findIndex (\<lambda>pok. id' pok = id' p) self)
       optimisticPokemon"

text \<open>
  \<open>TodoList\<close> has no such filter: it renders \<open>optimisticTodos.map((todo) => ...)\<close>, one row
  per element of the optimistic list.
\<close>

definition TodoList_rendered :: "Todo list \<Rightarrow> Todo list" where
  "TodoList_rendered optimisticTodos = map (\<lambda>todo. todo) optimisticTodos"


section \<open>The server actions: results, collaborators and the store\<close>

text \<open>
  The list actions return \<open>{data, error}\<close>; the mutating actions return
  \<open>{success, message}\<close>, with an optional \<open>data\<close> in the uploads and in the review creations.
\<close>

record 'a ListResult =
  data :: "'a list"
  error :: "string option"

record 'a ActionResult =
  success :: bool
  message :: string
  data :: "'a option"

definition failure :: "string \<Rightarrow> 'a ActionResult" where
  "failure m = \<lparr>success = False, message = m, data = None\<rparr>"

definition succeeded :: "string \<Rightarrow> 'a option \<Rightarrow> 'a ActionResult" where
  "succeeded m d = \<lparr>success = True, message = m, data = d\<rparr>"

text \<open>The property names of the two object literals, as a caller observes them.\<close>

definition ActionResult_keys :: "'a ActionResult \<Rightarrow> string list" where
  "ActionResult_keys r =
     [''success'', ''message''] @ (case ActionResult.data r of None \<Rightarrow> [] | Some _ \<Rightarrow> [''data''])"

definition ListResult_keys :: "'a ListResult \<Rightarrow> string list" where
  "ListResult_keys r = [''data'', ''error'']"

definition envelopeShape :: "string list \<Rightarrow> bool" where
  "envelopeShape ks =
     (''success'' \<in> set ks \<and> ''message'' \<in> set ks
      \<and> set ks \<subseteq> {''success'', ''message'', ''data''})"

text \<open>
  What a request finds outside this code.  \<open>user\<close> is the id of the verified user
  (\<open>supabase.auth.getUser()\<close>), if any.  \<open>dbError n\<close> is the error thrown by the
  \<open>n\<close>-th call of the ORM made by the action, if that call throws.  \<open>uploadError\<close> and
  \<open>removeError\<close> are the \<open>error.message\<close> that the blob store returns from \<open>upload\<close> and
  \<open>remove\<close>.  \<open>newId\<close> and \<open>now\<close> are the identifier and the timestamp the store gives a
  new row; \<open>dateNow\<close> and \<open>random\<close> are the renderings of \<open>Date.now()\<close> and of
  \<open>Math.random().toString(36).substring(7)\<close>; \<open>getPublicUrl bucket path\<close> is the public
  URL of an object; \<open>urlPathname\<close> is \<open>new URL(u).pathname\<close>, \<open>None\<close> when the constructor
  throws; \<open>zodInvalid\<close> is the message of the schema library for a value of the wrong type.
\<close>

record Env =
  user :: "string option"
  dbError :: "nat \<Rightarrow> string option"
  uploadError :: "string option"
  removeError :: "string option"
  newId :: string
  now :: nat
  dateNow :: string
  random :: string
  getPublicUrl :: "string \<Rightarrow> string \<Rightarrow> string"
  urlPathname :: "string \<Rightarrow> string option"
  zodInvalid :: string

datatype number = NaN | Num int

record ReviewRow = Owned +
  rating :: int
  comment :: "string option"
  profile :: "(string \<times> string option \<times> string) option"

record Review = ReviewRow +
  foodPhotoId :: string

record PokemonReview = ReviewRow +
  pokemonId :: string

record Profile = Item +
  full_name :: "string option"
  avatar_url :: "string option"
  email :: string
  secret_message :: "string option"

text \<open>
  The tables of the relational store, the two buckets of the blob store (the paths of
  their objects), the lines written by \<open>console.error\<close> (label and error) and the paths
  passed to \<open>revalidatePath\<close>.
\<close>

record World =
  todoTable :: "Todo list"
  photoTable :: "Photo list"
  foodPhotoTable :: "FoodPhoto list"
  noteTable :: "Note list"
  reviewTable :: "Review list"
  pokemonTable :: "Pokemon list"
  pokemonReviewTable :: "PokemonReview list"
  profileTable :: "Profile list"
  scicBucket :: "string list"
  foodReviewBucket :: "string list"
  console :: "(string \<times> string) list"
  revalidated :: "string list"

definition consoleError :: "string \<Rightarrow> string \<Rightarrow> World \<Rightarrow> World" where
  "consoleError label err w = w\<lparr>console := console w @ [(label, err)]\<rparr>"

definition revalidatePath :: "string \<Rightarrow> World \<Rightarrow> World" where
  "revalidatePath p w = w\<lparr>revalidated := revalidated w @ [p]\<rparr>"

text \<open>The ORM's \<open>findUnique({where: {id}})\<close>, \<open>update\<close> and \<open>delete\<close> on a table.\<close>

definition findUnique :: "string \<Rightarrow> ('a Item_scheme) list \<Rightarrow> ('a Item_scheme) option" where
  "findUnique i rows = find (\<lambda>r. id' r = i) rows"

definition updateRow ::
  "string \<Rightarrow> ('a Item_scheme \<Rightarrow> 'a Item_scheme) \<Rightarrow> ('a Item_scheme) list \<Rightarrow> ('a Item_scheme) list" where
  "updateRow i f rows = map (\<lambda>r. if id' r = i then f r else r) rows"

definition deleteRow :: "string \<Rightarrow> ('a Item_scheme) list \<Rightarrow> ('a Item_scheme) list" where
  "deleteRow i rows = filter (\<lambda>r. id' r \<noteq> i) rows"

text \<open>\<open>a || b\<close> on strings: the empty string is falsy.\<close>

definition orElse :: "string \<Rightarrow> string \<Rightarrow> string" where
  "orElse a b = (if a = [] then b else a)"

text \<open>
  \<open>z.string().min(1, tooShort).max(n, tooLong)\<close> applied to a form entry (\<open>None\<close> is a
  missing entry, which is not a string): the first issue's message, or the parsed value.
\<close>

definition zString :: "Env \<Rightarrow> nat \<Rightarrow> string \<Rightarrow> nat \<Rightarrow> string \<Rightarrow> string option \<Rightarrow> string + string" where
  "zString env lo tooShort hi tooLong v =
     (case v of
        None \<Rightarrow> Inl (zodInvalid env)
      | Some s \<Rightarrow> if length s < lo then Inl tooShort
                  else if hi < length s then Inl tooLong
                  else Inr s)"

text \<open>\<open>z.enum(["low", "medium", "high"])\<close>.\<close>

definition zPriority :: "Env \<Rightarrow> string \<Rightarrow> string + string" where
  "zPriority env p =
     (if p \<in> set [''low'', ''medium'', ''high''] then Inr p else Inl (zodInvalid env))"

text \<open>
  \<open>orderBy: {key: order}\<close>.  The order among rows of equal key is the store's; here it
  is that of a stable sort (reversed for \<open>desc\<close>), and strings compare by character code.
\<close>

datatype SortOrder = Asc | Desc

definition orderBy :: "('a \<Rightarrow> 'k::linorder) \<Rightarrow> SortOrder \<Rightarrow> 'a list \<Rightarrow> 'a list" where
  "orderBy key ord rows = (case ord of Asc \<Rightarrow> sort_key key rows | Desc \<Rightarrow> rev (sort_key key rows))"

section \<open>Todos\<close>

text \<open>
  \<open>todoSchema.safeParse({title, priority})\<close>: the title's issues come first;
  a missing priority takes the default.
\<close>

definition todoSchema :: "Env \<Rightarrow> string option \<Rightarrow> string option \<Rightarrow> string + (string \<times> string)" where
  "todoSchema env t p =
     (case zString env 1 ''Title is required'' 500 ''Title is too long'' t of
        Inl m \<Rightarrow> Inl m
      | Inr t' \<Rightarrow>
          (case p of
             None \<Rightarrow> Inr (t', ''medium'')
           | Some p' \<Rightarrow> (case zPriority env p' of Inl m \<Rightarrow> Inl m | Inr q \<Rightarrow> Inr (t', q))))"

definition createTodo ::
  "Env \<Rightarrow> string option \<Rightarrow> string option \<Rightarrow> World \<Rightarrow> unit ActionResult \<times> World" where
  "createTodo env formTitle formPriority w =
     (case user env of
        None \<Rightarrow> (failure ''You must be logged in to create todos'', w)
      | Some uid \<Rightarrow>
          (case todoSchema env formTitle formPriority of
             Inl m \<Rightarrow> (failure (orElse m ''Invalid input''), w)
           | Inr (t, p) \<Rightarrow>
               (case dbError env 0 of
                  Some err \<Rightarrow>
                    (failure ''Failed to create todo'', consoleError ''Error creating todo:'' err w)
                | None \<Rightarrow>
                    (succeeded ''Todo created successfully'' None,
                     revalidatePath ''/todos''
                       (w\<lparr>todoTable := todoTable w @
                            [\<lparr>id' = newId env, created_at = now env, updated_at = now env,
                              profileId = uid, title = t, completed = False, priority = p\<rparr>]\<rparr>)))))"

record TodoUpdateInput =
  upd_title :: "string option"
  upd_completed :: "bool option"
  upd_priority :: "string option"

text \<open>The \<open>updateData\<close> object built field by field, or the message of the first refusal.\<close>

definition updateTodo_data :: "Env \<Rightarrow> TodoUpdateInput \<Rightarrow> string + (Todo \<Rightarrow> Todo)" where
  "updateTodo_data env updates =
     (case (case upd_title updates of
              None \<Rightarrow> Inr (\<lambda>r. r)
            | Some t \<Rightarrow>
                (case zString env 1 ''Title is required'' 500 ''Title is too long'' (Some t) of
                   Inl m \<Rightarrow> Inl (orElse m ''Invalid title'')
                 | Inr t' \<Rightarrow> Inr (\<lambda>r. r\<lparr>title := t'\<rparr>))) of
        Inl m \<Rightarrow> Inl m
      | Inr setTitle \<Rightarrow>
          (let setCompleted = (case upd_completed updates of
                                 None \<Rightarrow> (\<lambda>r. r)
                               | Some c \<Rightarrow> (\<lambda>r. r\<lparr>completed := c\<rparr>))
           in case upd_priority updates of
                None \<Rightarrow> Inr (setCompleted \<circ> setTitle)
              | Some p \<Rightarrow>
                  (case zPriority env p of
                     Inl m \<Rightarrow> Inl (orElse m ''Invalid priority'')
                   | Inr q \<Rightarrow> Inr ((\<lambda>r. r\<lparr>priority := q\<rparr>) \<circ> setCompleted \<circ> setTitle))))"

definition updateTodo ::
  "Env \<Rightarrow> string \<Rightarrow> TodoUpdateInput \<Rightarrow> World \<Rightarrow> unit ActionResult \<times> World" where
  "updateTodo env i updates w =
     (case user env of
        None \<Rightarrow> (failure ''You must be logged in to update todos'', w)
      | Some uid \<Rightarrow>
          (case dbError env 0 of
             Some err \<Rightarrow>
               (failure ''Failed to update todo'', consoleError ''Error updating todo:'' err w)
           | None \<Rightarrow>
               (case findUnique i (todoTable w) of
                  None \<Rightarrow>
                    (failure ''Todo not found or you don't have permission to update it'', w)
                | Some todo \<Rightarrow>
                    if profileId todo \<noteq> uid then
                      (failure ''Todo not found or you don't have permission to update it'', w)
                    else
                      (case updateTodo_data env updates of
                         Inl m \<Rightarrow> (failure m, w)
                       | Inr updateData \<Rightarrow>
                           (case dbError env 1 of
                              Some err \<Rightarrow>
                                (failure ''Failed to update todo'',
                                 consoleError ''Error updating todo:'' err w)
                            | None \<Rightarrow>
                                (succeeded ''Todo updated successfully'' None,
                                 revalidatePath ''/todos''
                                   (w\<lparr>todoTable :=
                                        updateRow i (\<lambda>r. (updateData r)\<lparr>updated_at := now env\<rparr>)
                                          (todoTable w)\<rparr>)))))))"

definition deleteTodo :: "Env \<Rightarrow> string \<Rightarrow> World \<Rightarrow> unit ActionResult \<times> World" where
  "deleteTodo env i w =
     (case user env of
        None \<Rightarrow> (failure ''You must be logged in to delete todos'', w)
      | Some uid \<Rightarrow>
          (case dbError env 0 of
             Some err \<Rightarrow>
               (failure ''Failed to delete todo'', consoleError ''Error deleting todo:'' err w)
           | None \<Rightarrow>
               (case findUnique i (todoTable w) of
                  None \<Rightarrow>
                    (failure ''Todo not found or you don't have permission to delete it'', w)
                | Some todo \<Rightarrow>
                    if profileId todo \<noteq> uid then
                      (failure ''Todo not found or you don't have permission to delete it'', w)
                    else
                      (case dbError env 1 of
                         Some err \<Rightarrow>
                           (failure ''Failed to delete todo'',
                            consoleError ''Error deleting todo:'' err w)
                       | None \<Rightarrow>
                           (succeeded ''Todo deleted successfully'' None,
                            revalidatePath ''/todos''
                              (w\<lparr>todoTable := deleteRow i (todoTable w)\<rparr>))))))"

text \<open>\<open>findMany({where: {profileId: user.id}, orderBy: {created_at: "desc"}})\<close>.\<close>

definition getTodos :: "Env \<Rightarrow> World \<Rightarrow> Todo ListResult \<times> World" where
  "getTodos env w =
     (case user env of
        None \<Rightarrow> (\<lparr>ListResult.data = [], error = Some ''You must be logged in to view todos''\<rparr>, w)
      | Some uid \<Rightarrow>
          (case dbError env 0 of
             Some err \<Rightarrow>
               (\<lparr>ListResult.data = [], error = Some ''Failed to load todos''\<rparr>,
                consoleError ''Error fetching todos:'' err w)
           | None \<Rightarrow>
               (\<lparr>ListResult.data =
                    orderBy created_at Desc (filter (\<lambda>r. profileId r = uid) (todoTable w)),
                  error = None\<rparr>, w)))"


section \<open>Notes\<close>

definition noteSchema :: "Env \<Rightarrow> string option \<Rightarrow> string option \<Rightarrow> string + (string \<times> string)" where
  "noteSchema env t c =
     (case zString env 1 ''Title is required'' 255 ''Title is too long'' t of
        Inl m \<Rightarrow> Inl m
      | Inr t' \<Rightarrow>
          (case zString env 0 [] 50000 ''Content is too long'' c of
             Inl m \<Rightarrow> Inl m
           | Inr c' \<Rightarrow> Inr (t', c')))"

definition createNote ::
  "Env \<Rightarrow> string option \<Rightarrow> string option \<Rightarrow> World \<Rightarrow> unit ActionResult \<times> World" where
  "createNote env formTitle formContent w =
     (case user env of
        None \<Rightarrow> (failure ''You must be logged in to create notes'', w)
      | Some uid \<Rightarrow>
          (case noteSchema env formTitle formContent of
             Inl m \<Rightarrow> (failure (orElse m ''Invalid input''), w)
           | Inr (t, c) \<Rightarrow>
               (case dbError env 0 of
                  Some err \<Rightarrow>
                    (failure ''Failed to create note'', consoleError ''Error creating note:'' err w)
                | None \<Rightarrow>
                    (succeeded ''Note created successfully'' None,
                     revalidatePath ''/notes''
                       (w\<lparr>noteTable := noteTable w @
                            [\<lparr>id' = newId env, created_at = now env, updated_at = now env,
                              profileId = uid, title = t, content = orElse c []\<rparr>]\<rparr>)))))"

record NoteUpdateInput =
  upd_note_title :: "string option"
  upd_note_content :: "string option"

definition updateNote_data :: "Env \<Rightarrow> NoteUpdateInput \<Rightarrow> string + (Note \<Rightarrow> Note)" where
  "updateNote_data env updates =
     (case (case upd_note_title updates of
              None \<Rightarrow> Inr (\<lambda>r. r)
            | Some t \<Rightarrow>
                (case zString env 1 ''Title is required'' 255 ''Title is too long'' (Some t) of
                   Inl m \<Rightarrow> Inl (orElse m ''Invalid title'')
                 | Inr t' \<Rightarrow> Inr (\<lambda>r. r\<lparr>title := t'\<rparr>))) of
        Inl m \<Rightarrow> Inl m
      | Inr setTitle \<Rightarrow>
          (case upd_note_content updates of
             None \<Rightarrow> Inr setTitle
           | Some c \<Rightarrow>
               (case zString env 0 [] 50000 ''Content is too long'' (Some c) of
                  Inl m \<Rightarrow> Inl (orElse m ''Invalid content'')
                | Inr c' \<Rightarrow> Inr ((\<lambda>r. r\<lparr>content := c'\<rparr>) \<circ> setTitle))))"

definition updateNote ::
  "Env \<Rightarrow> string \<Rightarrow> NoteUpdateInput \<Rightarrow> World \<Rightarrow> unit ActionResult \<times> World" where
  "updateNote env i updates w =
     (case user env of
        None \<Rightarrow> (failure ''You must be logged in to update notes'', w)
      | Some uid \<Rightarrow>
          (case dbError env 0 of
             Some err \<Rightarrow>
               (failure ''Failed to update note'', consoleError ''Error updating note:'' err w)
           | None \<Rightarrow>
               (case findUnique i (noteTable w) of
                  None \<Rightarrow>
                    (failure ''Note not found or you don't have permission to update it'', w)
                | Some n \<Rightarrow>
                    if profileId n \<noteq> uid then
                      (failure ''Note not found or you don't have permission to update it'', w)
                    else
                      (case updateNote_data env updates of
                         Inl m \<Rightarrow> (failure m, w)
                       | Inr updateData \<Rightarrow>
                           (case dbError env 1 of
                              Some err \<Rightarrow>
                                (failure ''Failed to update note'',
                                 consoleError ''Error updating note:'' err w)
                            | None \<Rightarrow>
                                (succeeded ''Note updated successfully'' None,
                                 revalidatePath ''/notes''
                                   (w\<lparr>noteTable :=
                                        updateRow i (\<lambda>r. (updateData r)\<lparr>updated_at := now env\<rparr>)
                                          (noteTable w)\<rparr>)))))))"

definition deleteNote :: "Env \<Rightarrow> string \<Rightarrow> World \<Rightarrow> unit ActionResult \<times> World" where
  "deleteNote env i w =
     (case user env of
        None \<Rightarrow> (failure ''You must be logged in to delete notes'', w)
      | Some uid \<Rightarrow>
          (case dbError env 0 of
             Some err \<Rightarrow>
               (failure ''Failed to delete note'', consoleError ''Error deleting note:'' err w)
           | None \<Rightarrow>
               (case findUnique i (noteTable w) of
                  None \<Rightarrow>
                    (failure ''Note not found or you don't have permission to delete it'', w)
                | Some n \<Rightarrow>
                    if profileId n \<noteq> uid then
                      (failure ''Note not found or you don't have permission to delete it'', w)
                    else
                      (case dbError env 1 of
                         Some err \<Rightarrow>
                           (failure ''Failed to delete note'',
                            consoleError ''Error deleting note:'' err w)
                       | None \<Rightarrow>
                           (succeeded ''Note deleted successfully'' None,
                            revalidatePath ''/notes''
                              (w\<lparr>noteTable := deleteRow i (noteTable w)\<rparr>))))))"

text \<open>\<open>findMany({where: {profileId: user.id}, orderBy: {updated_at: "desc"}})\<close>.\<close>

definition getNotes :: "Env \<Rightarrow> World \<Rightarrow> Note ListResult \<times> World" where
  "getNotes env w =
     (case user env of
        None \<Rightarrow> (\<lparr>ListResult.data = [], error = Some ''You must be logged in to view notes''\<rparr>, w)
      | Some uid \<Rightarrow>
          (case dbError env 0 of
             Some err \<Rightarrow>
               (\<lparr>ListResult.data = [], error = Some ''Failed to load notes''\<rparr>,
                consoleError ''Error fetching notes:'' err w)
           | None \<Rightarrow>
               (\<lparr>ListResult.data =
                    orderBy updated_at Desc (filter (\<lambda>r. profileId r = uid) (noteTable w)),
                  error = None\<rparr>, w)))"

section \<open>Photos and food photos\<close>

text \<open>
  The uploaded \<open>File\<close>: its \<open>name\<close>, \<open>type\<close> and \<open>size\<close>.
\<close>

record File =
  file_name :: string
  file_type :: string
  file_size :: nat

text \<open>\<open>s.split(".").pop()\<close>: what follows the last dot, the whole string when it has none.\<close>

definition fileExt :: "string \<Rightarrow> string" where
  "fileExt s = rev (takeWhile (\<lambda>c. c \<noteq> CHR ''.'') (rev s))"

text \<open>\<open>s.split(sep)\<close> for a separator of one character, and \<open>parts.join("/")\<close>.\<close>

fun splitOn :: "char \<Rightarrow> string \<Rightarrow> string list" where
  "splitOn sep [] = [[]]"
| "splitOn sep (c # cs) =
     (if c = sep then [] # splitOn sep cs
      else (case splitOn sep cs of [] \<Rightarrow> [[c]] | p # ps \<Rightarrow> (c # p) # ps))"

fun joinSlash :: "string list \<Rightarrow> string" where
  "joinSlash [] = []"
| "joinSlash [p] = p"
| "joinSlash (p # q # ps) = p @ ''/'' @ joinSlash (q # ps)"

text \<open>
  The object path computed by \<open>deletePhoto\<close> and \<open>deleteFoodPhoto\<close> from the stored URL:
  what follows the bucket's segment in the URL's path, or the last segment; when the URL
  does not parse, what follows the bucket's segment of the raw string, or the empty path.
\<close>

definition objectPath :: "Env \<Rightarrow> string \<Rightarrow> string \<Rightarrow> string" where
  "objectPath env bucket u =
     (case urlPathname env u of
        Some pathname \<Rightarrow>
          (let pathParts = splitOn CHR ''/'' pathname;
               bucketIndex = findIndex (\<lambda>p. p = bucket) pathParts
           in if bucketIndex \<noteq> - 1 \<and> bucketIndex < int (length pathParts) - 1
              then joinSlash (drop (nat (bucketIndex + 1)) pathParts)
              else last pathParts)
      | None \<Rightarrow>
          (let urlParts = splitOn CHR ''/'' u;
               bucketIndex = findIndex (\<lambda>p. p = bucket) urlParts
           in if bucketIndex \<noteq> - 1 then joinSlash (drop (nat (bucketIndex + 1)) urlParts)
              else []))"

text \<open>\<open>10 * 1024 * 1024\<close>.\<close>

definition maxSize :: nat where
  "maxSize = 10 * 1024 * 1024"

text \<open>\<open>photoSchema.safeParse({name: name || file.name})\<close>; \<open>foodPhotoSchema\<close> is the same.\<close>

definition photoSchema :: "Env \<Rightarrow> string \<Rightarrow> string + string" where
  "photoSchema env n = zString env 1 ''Name is required'' 255 ''Name is too long'' (Some n)"

definition uploadPhoto ::
  "Env \<Rightarrow> File option \<Rightarrow> string option \<Rightarrow> World \<Rightarrow> Photo ActionResult \<times> World" where
  "uploadPhoto env formFile formName w =
     (case user env of
        None \<Rightarrow> (failure ''You must be logged in to upload photos'', w)
      | Some uid \<Rightarrow>
          (case formFile of
             None \<Rightarrow> (failure ''No file provided'', w)
           | Some file \<Rightarrow>
               if \<not> prefix ''image/'' (file_type file) then
                 (failure ''Only image files are allowed'', w)
               else if maxSize < file_size file then
                 (failure ''File size must be less than 10MB'', w)
               else
                 (case photoSchema env
                         (orElse (case formName of None \<Rightarrow> [] | Some n \<Rightarrow> n) (file_name file)) of
                    Inl m \<Rightarrow> (failure (orElse m ''Invalid name''), w)
                  | Inr validName \<Rightarrow>
                      (let fileName = uid @ ''/'' @ dateNow env @ ''-'' @ random env @ ''.''
                                        @ fileExt (file_name file)
                       in case uploadError env of
                            Some uploadMessage \<Rightarrow>
                              (failure (''Failed to upload photo: '' @ uploadMessage),
                               consoleError ''Upload error:'' uploadMessage w)
                          | None \<Rightarrow>
                              (let w1 = w\<lparr>scicBucket := scicBucket w @ [fileName]\<rparr>;
                                   publicUrl = getPublicUrl env ''scic'' fileName
                               in case dbError env 0 of
                                    Some err \<Rightarrow>
                                      (failure ''Failed to upload photo'',
                                       consoleError ''Error uploading photo:'' err w1)
                                  | None \<Rightarrow>
                                      (let photo = \<lparr>id' = newId env, created_at = now env,
                                                     updated_at = now env, profileId = uid,
                                                     name = validName, url = publicUrl,
                                                     size = Some (file_size file),
                                                     mime_type = Some (file_type file)\<rparr>
                                       in (succeeded ''Photo uploaded successfully'' (Some photo),
                                           revalidatePath ''/photos''
                                             (w1\<lparr>photoTable := photoTable w1 @ [photo]\<rparr>))))))))"


record PhotoUpdateInput =
  upd_name :: "string option"

definition updatePhoto_data :: "Env \<Rightarrow> PhotoUpdateInput \<Rightarrow> string + (string option)" where
  "updatePhoto_data env updates =
     (case upd_name updates of
        None \<Rightarrow> Inr None
      | Some n \<Rightarrow>
          (case zString env 1 ''Name is required'' 255 ''Name is too long'' (Some n) of
             Inl m \<Rightarrow> Inl (orElse m ''Invalid name'')
           | Inr n' \<Rightarrow> Inr (Some n')))"

definition updatePhoto ::
  "Env \<Rightarrow> string \<Rightarrow> PhotoUpdateInput \<Rightarrow> World \<Rightarrow> unit ActionResult \<times> World" where
  "updatePhoto env i updates w =
     (case user env of
        None \<Rightarrow> (failure ''You must be logged in to update photos'', w)
      | Some uid \<Rightarrow>
          (case dbError env 0 of
             Some err \<Rightarrow>
               (failure ''Failed to update photo'', consoleError ''Error updating photo:'' err w)
           | None \<Rightarrow>
               (case findUnique i (photoTable w) of
                  None \<Rightarrow>
                    (failure ''Photo not found or you don't have permission to update it'', w)
                | Some photo \<Rightarrow>
                    if profileId photo \<noteq> uid then
                      (failure ''Photo not found or you don't have permission to update it'', w)
                    else
                      (case updatePhoto_data env updates of
                         Inl m \<Rightarrow> (failure m, w)
                       | Inr updateData \<Rightarrow>
                           (case dbError env 1 of
                              Some err \<Rightarrow>
                                (failure ''Failed to update photo'',
                                 consoleError ''Error updating photo:'' err w)
                            | None \<Rightarrow>
                                (succeeded ''Photo updated successfully'' None,
                                 revalidatePath ''/photos''
                                   (w\<lparr>photoTable :=
                                        updateRow i
                                          (\<lambda>r. (case updateData of None \<Rightarrow> r
                                                  | Some n \<Rightarrow> r\<lparr>name := n\<rparr>)\<lparr>updated_at := now env\<rparr>)
                                          (photoTable w)\<rparr>)))))))"

text \<open>
  \<open>deletePhoto\<close>: the object is removed from the bucket first; an error of the blob store
  is logged and the row is deleted all the same.
\<close>

definition deletePhoto :: "Env \<Rightarrow> string \<Rightarrow> World \<Rightarrow> unit ActionResult \<times> World" where
  "deletePhoto env i w =
     (case user env of
        None \<Rightarrow> (failure ''You must be logged in to delete photos'', w)
      | Some uid \<Rightarrow>
          (case dbError env 0 of
             Some err \<Rightarrow>
               (failure ''Failed to delete photo'', consoleError ''Error deleting photo:'' err w)
           | None \<Rightarrow>
               (case findUnique i (photoTable w) of
                  None \<Rightarrow>
                    (failure ''Photo not found or you don't have permission to delete it'', w)
                | Some photo \<Rightarrow>
                    if profileId photo \<noteq> uid then
                      (failure ''Photo not found or you don't have permission to delete it'', w)
                    else
                      (let fileName = objectPath env ''scic'' (url photo);
                           w1 = (case removeError env of
                                   Some deleteError \<Rightarrow>
                                     consoleError ''Storage delete error:'' deleteError w
                                 | None \<Rightarrow>
                                     w\<lparr>scicBucket := filter (\<lambda>p. p \<noteq> fileName) (scicBucket w)\<rparr>)
                       in case dbError env 1 of
                            Some err \<Rightarrow>
                              (failure ''Failed to delete photo'',
                               consoleError ''Error deleting photo:'' err w1)
                          | None \<Rightarrow>
                              (succeeded ''Photo deleted successfully'' None,
                               revalidatePath ''/photos''
                                 (w1\<lparr>photoTable := deleteRow i (photoTable w1)\<rparr>))))))"

text \<open>
  \<open>name: {contains: search, mode: "insensitive"}\<close>: the name contains the search string,
  letters compared without case (here, the letters of ASCII).
\<close>

definition toLowerChar :: "char \<Rightarrow> char" where
  "toLowerChar c =
     (case map_of (zip ''ABCDEFGHIJKLMNOPQRSTUVWXYZ'' ''abcdefghijklmnopqrstuvwxyz'') c of
        Some l \<Rightarrow> l
      | None \<Rightarrow> c)"

definition containsInsensitive :: "string \<Rightarrow> string \<Rightarrow> bool" where
  "containsInsensitive search n = sublist (map toLowerChar search) (map toLowerChar n)"

datatype SortOption = SortName | SortCreatedAt

text \<open>
  \<open>getPhotos\<close>: \<open>where = {profileId: user.id, ...(search && {name: ...})}\<close>; an absent or
  empty search adds no condition.
\<close>

definition getPhotos ::
  "Env \<Rightarrow> string option \<Rightarrow> SortOption \<Rightarrow> SortOrder \<Rightarrow> World \<Rightarrow> Photo ListResult \<times> World" where
  "getPhotos env search sortBy sortOrder w =
     (case user env of
        None \<Rightarrow> (\<lparr>ListResult.data = [], error = Some ''You must be logged in to view photos''\<rparr>, w)
      | Some uid \<Rightarrow>
          (case dbError env 0 of
             Some err \<Rightarrow>
               (\<lparr>ListResult.data = [], error = Some ''Failed to load photos''\<rparr>,
                consoleError ''Error fetching photos:'' err w)
           | None \<Rightarrow>
               (let wh = (\<lambda>r. profileId r = uid
                              \<and> (case search of
                                    None \<Rightarrow> True
                                  | Some q \<Rightarrow> q = [] \<or> containsInsensitive q (name r)));
                    photos = filter wh (photoTable w)
                in (\<lparr>ListResult.data =
                       (case sortBy of
                          SortName \<Rightarrow> orderBy name sortOrder photos
                        | SortCreatedAt \<Rightarrow> orderBy created_at sortOrder photos),
                     error = None\<rparr>, w))))"

definition uploadFoodPhoto ::
  "Env \<Rightarrow> File option \<Rightarrow> string option \<Rightarrow> World \<Rightarrow> FoodPhoto ActionResult \<times> World" where
  "uploadFoodPhoto env formFile formName w =
     (case user env of
        None \<Rightarrow> (failure ''You must be logged in to upload food photos'', w)
      | Some uid \<Rightarrow>
          (case formFile of
             None \<Rightarrow> (failure ''No file provided'', w)
           | Some file \<Rightarrow>
               if \<not> prefix ''image/'' (file_type file) then
                 (failure ''Only image files are allowed'', w)
               else if maxSize < file_size file then
                 (failure ''File size must be less than 10MB'', w)
               else
                 (case photoSchema env
                         (orElse (case formName of None \<Rightarrow> [] | Some n \<Rightarrow> n) (file_name file)) of
                    Inl m \<Rightarrow> (failure (orElse m ''Invalid name''), w)
                  | Inr validName \<Rightarrow>
                      (let fileName = uid @ ''/'' @ dateNow env @ ''-'' @ random env @ ''.''
                                        @ fileExt (file_name file)
                       in case uploadError env of
                            Some uploadMessage \<Rightarrow>
                              (failure (''Failed to upload photo: '' @ uploadMessage),
                               consoleError ''Upload error:'' uploadMessage w)
                          | None \<Rightarrow>
                              (let w1 = w\<lparr>foodReviewBucket := foodReviewBucket w @ [fileName]\<rparr>;
                                   publicUrl = getPublicUrl env ''food-review'' fileName
                               in case dbError env 0 of
                                    Some err \<Rightarrow>
                                      (failure ''Failed to upload food photo'',
                                       consoleError ''Error uploading food photo:'' err w1)
                                  | None \<Rightarrow>
                                      (let foodPhoto = \<lparr>id' = newId env, created_at = now env,
                                                     updated_at = now env, profileId = uid,
                                                     name = validName, url = publicUrl,
                                                     size = Some (file_size file),
                                                     mime_type = Some (file_type file),
                                                     reviews_count = None\<rparr>
                                       in (succeeded ''Food photo uploaded successfully''
                                             (Some foodPhoto),
                                           revalidatePath ''/food-review''
                                             (w1\<lparr>foodPhotoTable :=
                                                   foodPhotoTable w1 @ [foodPhoto]\<rparr>))))))))"

definition updateFoodPhoto ::
  "Env \<Rightarrow> string \<Rightarrow> PhotoUpdateInput \<Rightarrow> World \<Rightarrow> unit ActionResult \<times> World" where
  "updateFoodPhoto env i updates w =
     (case user env of
        None \<Rightarrow> (failure ''You must be logged in to update food photos'', w)
      | Some uid \<Rightarrow>
          (case dbError env 0 of
             Some err \<Rightarrow>
               (failure ''Failed to update food photo'',
                consoleError ''Error updating food photo:'' err w)
           | None \<Rightarrow>
               (case findUnique i (foodPhotoTable w) of
                  None \<Rightarrow>
                    (failure ''Food photo not found or you don't have permission to update it'', w)
                | Some foodPhoto \<Rightarrow>
                    if profileId foodPhoto \<noteq> uid then
                      (failure ''Food photo not found or you don't have permission to update it'', w)
                    else
                      (case updatePhoto_data env updates of
                         Inl m \<Rightarrow> (failure m, w)
                       | Inr updateData \<Rightarrow>
                           (case dbError env 1 of
                              Some err \<Rightarrow>
                                (failure ''Failed to update food photo'',
                                 consoleError ''Error updating food photo:'' err w)
                            | None \<Rightarrow>
                                (succeeded ''Food photo updated successfully'' None,
                                 revalidatePath ''/food-review''
                                   (w\<lparr>foodPhotoTable :=
                                        updateRow i
                                          (\<lambda>r. (case updateData of None \<Rightarrow> r
                                                  | Some n \<Rightarrow> r\<lparr>name := n\<rparr>)\<lparr>updated_at := now env\<rparr>)
                                          (foodPhotoTable w)\<rparr>)))))))"

text \<open>
  \<open>deleteFoodPhoto\<close>: the reviews of the photo go with it (the foreign key of \<open>reviews\<close> is
  \<open>ON DELETE CASCADE\<close>).
\<close>

definition deleteFoodPhoto :: "Env \<Rightarrow> string \<Rightarrow> World \<Rightarrow> unit ActionResult \<times> World" where
  "deleteFoodPhoto env i w =
     (case user env of
        None \<Rightarrow> (failure ''You must be logged in to delete food photos'', w)
      | Some uid \<Rightarrow>
          (case dbError env 0 of
             Some err \<Rightarrow>
               (failure ''Failed to delete food photo'',
                consoleError ''Error deleting food photo:'' err w)
           | None \<Rightarrow>
               (case findUnique i (foodPhotoTable w) of
                  None \<Rightarrow>
                    (failure ''Food photo not found or you don't have permission to delete it'', w)
                | Some foodPhoto \<Rightarrow>
                    if profileId foodPhoto \<noteq> uid then
                      (failure ''Food photo not found or you don't have permission to delete it'', w)
                    else
                      (let fileName = objectPath env ''food-review'' (url foodPhoto);
                           w1 = (case removeError env of
                                   Some deleteError \<Rightarrow>
                                     consoleError ''Storage delete error:'' deleteError w
                                 | None \<Rightarrow>
                                     w\<lparr>foodReviewBucket :=
                                         filter (\<lambda>p. p \<noteq> fileName) (foodReviewBucket w)\<rparr>)
                       in case dbError env 1 of
                            Some err \<Rightarrow>
                              (failure ''Failed to delete food photo'',
                               consoleError ''Error deleting food photo:'' err w1)
                          | None \<Rightarrow>
                              (succeeded ''Food photo deleted successfully'' None,
                               revalidatePath ''/food-review''
                                 (w1\<lparr>foodPhotoTable := deleteRow i (foodPhotoTable w1),
                                      reviewTable :=
                                        filter (\<lambda>r. foodPhotoId r \<noteq> i) (reviewTable w1)\<rparr>))))))"

text \<open>
  \<open>getFoodPhotos\<close>: \<open>where = {...(search && {name: ...})}\<close>, with no condition on the
  owner; every photo comes with the number of its reviews (\<open>_count\<close>).
\<close>

definition getFoodPhotos ::
  "Env \<Rightarrow> string option \<Rightarrow> SortOption \<Rightarrow> SortOrder \<Rightarrow> World \<Rightarrow> FoodPhoto ListResult \<times> World" where
  "getFoodPhotos env search sortBy sortOrder w =
     (case user env of
        None \<Rightarrow>
          (\<lparr>ListResult.data = [], error = Some ''You must be logged in to view food photos''\<rparr>, w)
      | Some uid \<Rightarrow>
          (case dbError env 0 of
             Some err \<Rightarrow>
               (\<lparr>ListResult.data = [], error = Some ''Failed to load food photos''\<rparr>,
                consoleError ''Error fetching food photos:'' err w)
           | None \<Rightarrow>
               (let wh = (\<lambda>r. case search of
                                None \<Rightarrow> True
                              | Some q \<Rightarrow> q = [] \<or> containsInsensitive q (name r));
                    foodPhotos = filter wh (foodPhotoTable w);
                    ordered = (case sortBy of
                                 SortName \<Rightarrow> orderBy name sortOrder foodPhotos
                               | SortCreatedAt \<Rightarrow> orderBy created_at sortOrder foodPhotos)
                in (\<lparr>ListResult.data =
                       map (\<lambda>p. p\<lparr>reviews_count :=
                                    Some (length (filter (\<lambda>r. foodPhotoId r = id' p)
                                                    (reviewTable w)))\<rparr>) ordered,
                     error = None\<rparr>, w))))"


section \<open>Reviews of food photos\<close>

text \<open>
  \<open>z.number().min(1, ...).max(5, ...)\<close> on \<open>Number(formData.get("rating"))\<close>, and
  \<open>z.string().max(1000, ...).optional()\<close> on the comment.  The column \<open>rating\<close> is an
  \<open>INTEGER\<close>; a rating that is not a whole number is refused by the store, which is one of
  the failures of \<open>dbError\<close>.
\<close>

definition zRating :: "Env \<Rightarrow> number \<Rightarrow> string + int" where
  "zRating env r =
     (case r of
        NaN \<Rightarrow> Inl (zodInvalid env)
      | Num n \<Rightarrow> if n < 1 then Inl ''Rating must be at least 1''
                 else if 5 < n then Inl ''Rating must be at most 5''
                 else Inr n)"

definition reviewSchema :: "Env \<Rightarrow> number \<Rightarrow> string option \<Rightarrow> string + (int \<times> string)" where
  "reviewSchema env r c =
     (case zRating env r of
        Inl m \<Rightarrow> Inl m
      | Inr n \<Rightarrow>
          (case zString env 0 [] 1000 ''Comment is too long'' c of
             Inl m \<Rightarrow> Inl m
           | Inr c' \<Rightarrow> Inr (n, c')))"

text \<open>\<open>c || null\<close>.\<close>

definition orNull :: "string \<Rightarrow> string option" where
  "orNull c = (if c = [] then None else Some c)"

text \<open>\<open>include: {profile: {select: {id, full_name, email}}}\<close>.\<close>

definition includeProfile :: "World \<Rightarrow> string \<Rightarrow> (string \<times> string option \<times> string) option" where
  "includeProfile w uid =
     map_option (\<lambda>p. (id' p, full_name p, email p)) (findUnique uid (profileTable w))"

definition createReview ::
  "Env \<Rightarrow> string \<Rightarrow> number \<Rightarrow> string option \<Rightarrow> World \<Rightarrow> Review ActionResult \<times> World" where
  "createReview env target formRating formComment w =
     (case user env of
        None \<Rightarrow> (failure ''You must be logged in to create reviews'', w)
      | Some uid \<Rightarrow>
          (case reviewSchema env formRating formComment of
             Inl m \<Rightarrow> (failure (orElse m ''Invalid input''), w)
           | Inr (r, c) \<Rightarrow>
               (case dbError env 0 of
                  Some err \<Rightarrow>
                    (failure ''Failed to create review'',
                     consoleError ''Error creating review:'' err w)
                | None \<Rightarrow>
                    (case findUnique target (foodPhotoTable w) of
                       None \<Rightarrow> (failure ''Food photo not found'', w)
                     | Some foodPhoto \<Rightarrow>
                         (case dbError env 1 of
                            Some err \<Rightarrow>
                              (failure ''Failed to create review'',
                               consoleError ''Error creating review:'' err w)
                          | None \<Rightarrow>
                              (case find (\<lambda>x. foodPhotoId x = target \<and> profileId x = uid)
                                      (reviewTable w) of
                                 Some existingReview \<Rightarrow>
                                   (failure ''You have already reviewed this food photo'', w)
                               | None \<Rightarrow>
                                   (case dbError env 2 of
                                      Some err \<Rightarrow>
                                        (failure ''Failed to create review'',
                                         consoleError ''Error creating review:'' err w)
                                    | None \<Rightarrow>
                                        (let review = \<lparr>id' = newId env, created_at = now env,
                                                        updated_at = now env, profileId = uid,
                                                        rating = r, comment = orNull c,
                                                        profile = None, foodPhotoId = target\<rparr>
                                         in (succeeded ''Review created successfully''
                                               (Some (review\<lparr>profile := includeProfile w uid\<rparr>)),
                                             revalidatePath ''/food-review''
                                               (w\<lparr>reviewTable :=
                                                    reviewTable w @ [review]\<rparr>))))))))))"

record ReviewUpdateInput =
  upd_rating :: "number option"
  upd_comment :: "string option"

definition updateReview_data ::
  "Env \<Rightarrow> ReviewUpdateInput \<Rightarrow> string + ('a ReviewRow_scheme \<Rightarrow> 'a ReviewRow_scheme)" where
  "updateReview_data env updates =
     (case (case upd_rating updates of
              None \<Rightarrow> Inr (\<lambda>r. r)
            | Some x \<Rightarrow>
                (case zRating env x of
                   Inl m \<Rightarrow> Inl (orElse m ''Invalid rating'')
                 | Inr n \<Rightarrow> Inr (\<lambda>r. r\<lparr>rating := n\<rparr>))) of
        Inl m \<Rightarrow> Inl m
      | Inr setRating \<Rightarrow>
          (case upd_comment updates of
             None \<Rightarrow> Inr setRating
           | Some c \<Rightarrow>
               (case zString env 0 [] 1000 ''Comment is too long'' (Some c) of
                  Inl m \<Rightarrow> Inl (orElse m ''Invalid comment'')
                | Inr c' \<Rightarrow> Inr ((\<lambda>r. r\<lparr>comment := orNull c'\<rparr>) \<circ> setRating))))"

definition updateReview ::
  "Env \<Rightarrow> string \<Rightarrow> ReviewUpdateInput \<Rightarrow> World \<Rightarrow> unit ActionResult \<times> World" where
  "updateReview env i updates w =
     (case user env of
        None \<Rightarrow> (failure ''You must be logged in to update reviews'', w)
      | Some uid \<Rightarrow>
          (case dbError env 0 of
             Some err \<Rightarrow>
               (failure ''Failed to update review'', consoleError ''Error updating review:'' err w)
           | None \<Rightarrow>
               (case findUnique i (reviewTable w) of
                  None \<Rightarrow>
                    (failure ''Review not found or you don't have permission to update it'', w)
                | Some review \<Rightarrow>
                    if profileId review \<noteq> uid then
                      (failure ''Review not found or you don't have permission to update it'', w)
                    else
                      (case updateReview_data env updates of
                         Inl m \<Rightarrow> (failure m, w)
                       | Inr updateData \<Rightarrow>
                           (case dbError env 1 of
                              Some err \<Rightarrow>
                                (failure ''Failed to update review'',
                                 consoleError ''Error updating review:'' err w)
                            | None \<Rightarrow>
                                (succeeded ''Review updated successfully'' None,
                                 revalidatePath ''/food-review''
                                   (w\<lparr>reviewTable :=
                                        updateRow i (\<lambda>r. (updateData r)\<lparr>updated_at := now env\<rparr>)
                                          (reviewTable w)\<rparr>)))))))"

definition deleteReview :: "Env \<Rightarrow> string \<Rightarrow> World \<Rightarrow> unit ActionResult \<times> World" where
  "deleteReview env i w =
     (case user env of
        None \<Rightarrow> (failure ''You must be logged in to delete reviews'', w)
      | Some uid \<Rightarrow>
          (case dbError env 0 of
             Some err \<Rightarrow>
               (failure ''Failed to delete review'', consoleError ''Error deleting review:'' err w)
           | None \<Rightarrow>
               (case findUnique i (reviewTable w) of
                  None \<Rightarrow>
                    (failure ''Review not found or you don't have permission to delete it'', w)
                | Some review \<Rightarrow>
                    if profileId review \<noteq> uid then
                      (failure ''Review not found or you don't have permission to delete it'', w)
                    else
                      (case dbError env 1 of
                         Some err \<Rightarrow>
                           (failure ''Failed to delete review'',
                            consoleError ''Error deleting review:'' err w)
                       | None \<Rightarrow>
                           (succeeded ''Review deleted successfully'' None,
                            revalidatePath ''/food-review''
                              (w\<lparr>reviewTable := deleteRow i (reviewTable w)\<rparr>))))))"

text \<open>\<open>getReviews\<close>: the reviews of one food photo, of every author, newest first.\<close>

definition getReviews :: "Env \<Rightarrow> string \<Rightarrow> World \<Rightarrow> Review ListResult \<times> World" where
  "getReviews env target w =
     (case user env of
        None \<Rightarrow> (\<lparr>ListResult.data = [], error = Some ''You must be logged in to view reviews''\<rparr>, w)
      | Some uid \<Rightarrow>
          (case dbError env 0 of
             Some err \<Rightarrow>
               (\<lparr>ListResult.data = [], error = Some ''Failed to load reviews''\<rparr>,
                consoleError ''Error fetching reviews:'' err w)
           | None \<Rightarrow>
               (\<lparr>ListResult.data =
                    map (\<lambda>r. r\<lparr>profile := includeProfile w (profileId r)\<rparr>)
                      (orderBy created_at Desc
                         (filter (\<lambda>r. foodPhotoId r = target) (reviewTable w))),
                  error = None\<rparr>, w)))"

section \<open>Reviews of Pokemon\<close>

text \<open>The same four actions over \<open>pokemon\<close> and \<open>pokemon_reviews\<close>.\<close>

definition createPokemonReview ::
  "Env \<Rightarrow> string \<Rightarrow> number \<Rightarrow> string option \<Rightarrow> World \<Rightarrow> PokemonReview ActionResult \<times> World" where
  "createPokemonReview env target formRating formComment w =
     (case user env of
        None \<Rightarrow> (failure ''You must be logged in to create reviews'', w)
      | Some uid \<Rightarrow>
          (case reviewSchema env formRating formComment of
             Inl m \<Rightarrow> (failure (orElse m ''Invalid input''), w)
           | Inr (r, c) \<Rightarrow>
               (case dbError env 0 of
                  Some err \<Rightarrow>
                    (failure ''Failed to create review'',
                     consoleError ''Error creating review:'' err w)
                | None \<Rightarrow>
                    (case findUnique target (pokemonTable w) of
                       None \<Rightarrow> (failure ''Pokemon not found'', w)
                     | Some pokemon \<Rightarrow>
                         (case dbError env 1 of
                            Some err \<Rightarrow>
                              (failure ''Failed to create review'',
                               consoleError ''Error creating review:'' err w)
                          | None \<Rightarrow>
                              (case find (\<lambda>x. pokemonId x = target \<and> profileId x = uid)
                                      (pokemonReviewTable w) of
                                 Some existingReview \<Rightarrow>
                                   (failure ''You have already reviewed this Pokemon'', w)
                               | None \<Rightarrow>
                                   (case dbError env 2 of
                                      Some err \<Rightarrow>
                                        (failure ''Failed to create review'',
                                         consoleError ''Error creating review:'' err w)
                                    | None \<Rightarrow>
                                        (let review = \<lparr>id' = newId env, created_at = now env,
                                                        updated_at = now env, profileId = uid,
                                                        rating = r, comment = orNull c,
                                                        profile = None, pokemonId = target\<rparr>
                                         in (succeeded ''Review created successfully''
                                               (Some (review\<lparr>profile := includeProfile w uid\<rparr>)),
                                             revalidatePath ''/pokemon-review''
                                               (w\<lparr>pokemonReviewTable :=
                                                    pokemonReviewTable w @ [review]\<rparr>))))))))))"

definition updatePokemonReview ::
  "Env \<Rightarrow> string \<Rightarrow> ReviewUpdateInput \<Rightarrow> World \<Rightarrow> unit ActionResult \<times> World" where
  "updatePokemonReview env i updates w =
     (case user env of
        None \<Rightarrow> (failure ''You must be logged in to update reviews'', w)
      | Some uid \<Rightarrow>
          (case dbError env 0 of
             Some err \<Rightarrow>
               (failure ''Failed to update review'', consoleError ''Error updating review:'' err w)
           | None \<Rightarrow>
               (case findUnique i (pokemonReviewTable w) of
                  None \<Rightarrow>
                    (failure ''Review not found or you don't have permission to update it'', w)
                | Some review \<Rightarrow>
                    if profileId review \<noteq> uid then
                      (failure ''Review not found or you don't have permission to update it'', w)
                    else
                      (case updateReview_data env updates of
                         Inl m \<Rightarrow> (failure m, w)
                       | Inr updateData \<Rightarrow>
                           (case dbError env 1 of
                              Some err \<Rightarrow>
                                (failure ''Failed to update review'',
                                 consoleError ''Error updating review:'' err w)
                            | None \<Rightarrow>
                                (succeeded ''Review updated successfully'' None,
                                 revalidatePath ''/pokemon-review''
                                   (w\<lparr>pokemonReviewTable :=
                                        updateRow i (\<lambda>r. (updateData r)\<lparr>updated_at := now env\<rparr>)
                                          (pokemonReviewTable w)\<rparr>)))))))"

definition deletePokemonReview :: "Env \<Rightarrow> string \<Rightarrow> World \<Rightarrow> unit ActionResult \<times> World" where
  "deletePokemonReview env i w =
     (case user env of
        None \<Rightarrow> (failure ''You must be logged in to delete reviews'', w)
      | Some uid \<Rightarrow>
          (case dbError env 0 of
             Some err \<Rightarrow>
               (failure ''Failed to delete review'', consoleError ''Error deleting review:'' err w)
           | None \<Rightarrow>
               (case findUnique i (pokemonReviewTable w) of
                  None \<Rightarrow>
                    (failure ''Review not found or you don't have permission to delete it'', w)
                | Some review \<Rightarrow>
                    if profileId review \<noteq> uid then
                      (failure ''Review not found or you don't have permission to delete it'', w)
                    else
                      (case dbError env 1 of
                         Some err \<Rightarrow>
                           (failure ''Failed to delete review'',
                            consoleError ''Error deleting review:'' err w)
                       | None \<Rightarrow>
                           (succeeded ''Review deleted successfully'' None,
                            revalidatePath ''/pokemon-review''
                              (w\<lparr>pokemonReviewTable := deleteRow i (pokemonReviewTable w)\<rparr>))))))"

text \<open>\<open>getPokemonReviews\<close>: the reviews of one Pokemon, of every author, newest first.\<close>

definition getPokemonReviews :: "Env \<Rightarrow> string \<Rightarrow> World \<Rightarrow> PokemonReview ListResult \<times> World" where
  "getPokemonReviews env target w =
     (case user env of
        None \<Rightarrow> (\<lparr>ListResult.data = [], error = Some ''You must be logged in to view reviews''\<rparr>, w)
      | Some uid \<Rightarrow>
          (case dbError env 0 of
             Some err \<Rightarrow>
               (\<lparr>ListResult.data = [], error = Some ''Failed to load reviews''\<rparr>,
                consoleError ''Error fetching reviews:'' err w)
           | None \<Rightarrow>
               (\<lparr>ListResult.data =
                    map (\<lambda>r. r\<lparr>profile := includeProfile w (profileId r)\<rparr>)
                      (orderBy created_at Desc
                         (filter (\<lambda>r. pokemonId r = target) (pokemonReviewTable w))),
                  error = None\<rparr>, w)))"


text \<open>
  \<open>getPokemonWithReviews\<close> (in the Pokemon actions): every Pokemon with the number of its
  reviews; no user is asked for.
\<close>

definition getPokemonWithReviews ::
  "Env \<Rightarrow> SortOption \<Rightarrow> SortOrder \<Rightarrow> World \<Rightarrow> Pokemon ListResult \<times> World" where
  "getPokemonWithReviews env sortBy sortOrder w =
     (case dbError env 0 of
        Some err \<Rightarrow>
          (\<lparr>ListResult.data = [], error = Some ''Failed to fetch Pokemon''\<rparr>,
           consoleError ''Error fetching Pokemon:'' err w)
      | None \<Rightarrow>
          (let ordered = (case sortBy of
                            SortName \<Rightarrow> orderBy pokemon_name sortOrder (pokemonTable w)
                          | SortCreatedAt \<Rightarrow> orderBy created_at sortOrder (pokemonTable w))
           in (\<lparr>ListResult.data =
                  map (\<lambda>p. p\<lparr>pokemon_reviews_count :=
                               Some (length (filter (\<lambda>r. pokemonId r = id' p)
                                               (pokemonReviewTable w)))\<rparr>) ordered,
                error = None\<rparr>, w)))"

section \<open>The handlers of the components\<close>

text \<open>
  What a handler does, in order, once the server action it awaits has given its result:
  the optimistic action it dispatches, the server action it awaits, the toasts, the call
  of the component's loader (\<open>loadTodos\<close>, \<open>loadPhotos\<close>, \<open>loadFoodPhotos\<close>,
  \<open>loadPokemon\<close>, \<open>loadNotes\<close>: the refetch of the list) and the other updates of local
  state.
\<close>

datatype 'a Event =
    Optimistic "'a Action"
  | Await string
  | ToastSuccess string
  | ToastError string
  | Load
  | SetState string

datatype 'r Outcome = Returns 'r | Throws

fun isAwait :: "'a Event \<Rightarrow> bool" where
  "isAwait (Await a) = True"
| "isAwait e = False"

text \<open>The loader is called after the server action has been awaited.\<close>

definition refetchesAfterMutation :: "'a Event list \<Rightarrow> bool" where
  "refetchesAfterMutation evs = (Load \<in> set (dropWhile (\<lambda>e. \<not> isAwait e) evs))"

text \<open>\<open>String.prototype.trim\<close>, over the white space of ASCII.\<close>

definition isSpace :: "char \<Rightarrow> bool" where
  "isSpace c = (c \<in> set [CHR '' '', CHR 0x09, CHR 0x0A, CHR 0x0B, CHR 0x0C, CHR 0x0D])"

definition trim :: "string \<Rightarrow> string" where
  "trim s = rev (dropWhile isSpace (rev (dropWhile isSpace s)))"

subsection \<open>\<open>TodoList\<close>\<close>

definition TodoList_handleToggleComplete ::
  "string \<Rightarrow> bool \<Rightarrow> unit ActionResult \<Rightarrow> Todo Event list" where
  "TodoList_handleToggleComplete i isCompleted result =
     [Optimistic \<lparr>type' = ''toggle'', item = None, actionId = Some i\<rparr>, Await ''updateTodo'']
     @ (if success result then [Load]
        else [ToastError (message result), Load])"

definition TodoList_handleDelete :: "string \<Rightarrow> unit ActionResult \<Rightarrow> Todo Event list" where
  "TodoList_handleDelete i result =
     [Optimistic \<lparr>type' = ''delete'', item = None, actionId = Some i\<rparr>, Await ''deleteTodo'']
     @ (if success result then [ToastSuccess (message result), Load]
        else [ToastError (message result), Load])"

definition TodoList_handleSaveEdit ::
  "string \<Rightarrow> string \<Rightarrow> unit ActionResult \<Rightarrow> Todo Event list" where
  "TodoList_handleSaveEdit i editTitle result =
     (if trim editTitle = [] then [ToastError ''Title cannot be empty'']
      else [Await ''updateTodo'']
           @ (if success result
              then [ToastSuccess (message result), SetState ''editId'', SetState ''editTitle'', Load]
              else [ToastError (message result)]))"

definition TodoList_handlePriorityChange ::
  "Todo list \<Rightarrow> Todo list \<Rightarrow> string \<Rightarrow> string \<Rightarrow> unit ActionResult \<Rightarrow> Todo Event list" where
  "TodoList_handlePriorityChange optimisticTodos todos i newPriority result =
     (let currentTodo = (case find (\<lambda>t. id' t = i) optimisticTodos of
                           Some t \<Rightarrow> Some t
                         | None \<Rightarrow> find (\<lambda>t. id' t = i) todos)
      in [Optimistic \<lparr>type' = ''update'',
                      item = map_option (\<lambda>t. t\<lparr>priority := newPriority\<rparr>) currentTodo,
                      actionId = Some i\<rparr>,
          Await ''updateTodo'']
         @ (if success result then [Load]
            else [ToastError (message result), Load]))"

text \<open>
  The effect on \<open>createState\<close>, the result of \<open>createTodo\<close> submitted by the form
  (\<open>None\<close> before the first submission).
\<close>

definition TodoList_createEffect :: "unit ActionResult option \<Rightarrow> Todo Event list" where
  "TodoList_createEffect createState =
     (case createState of
        None \<Rightarrow> []
      | Some result \<Rightarrow>
          [Await ''createTodo'']
          @ (if success result
             then [ToastSuccess (message result), Load, SetState ''priority'', SetState ''form'']
             else [ToastError (message result)]))"

subsection \<open>\<open>NotesList\<close>\<close>

definition NotesList_createEffect :: "unit ActionResult option \<Rightarrow> Note Event list" where
  "NotesList_createEffect createState =
     (case createState of
        None \<Rightarrow> []
      | Some result \<Rightarrow>
          [Await ''createNote'']
          @ (if success result
             then [ToastSuccess (message result), Load, SetState ''form'']
             else [ToastError (message result)]))"

definition NotesList_handleDelete :: "string \<Rightarrow> unit ActionResult \<Rightarrow> Note Event list" where
  "NotesList_handleDelete i result =
     [Optimistic \<lparr>type' = ''delete'', item = None, actionId = Some i\<rparr>, Await ''deleteNote'']
     @ (if success result then [ToastSuccess (message result), Load]
        else [ToastError (message result), Load])"

definition NotesList_handleSaveEdit ::
  "string \<Rightarrow> string \<Rightarrow> unit ActionResult \<Rightarrow> Note Event list" where
  "NotesList_handleSaveEdit i editTitle result =
     (if trim editTitle = [] then [ToastError ''Title cannot be empty'']
      else [Await ''updateNote'']
           @ (if success result
              then [ToastSuccess (message result), SetState ''editId'', SetState ''editTitle'',
                    SetState ''editContent'', SetState ''previewMode'', Load]
              else [ToastError (message result)]))"

subsection \<open>\<open>PhotoGallery\<close>\<close>

definition PhotoGallery_handleUpload ::
  "File option \<Rightarrow> Photo ActionResult Outcome \<Rightarrow> Photo Event list" where
  "PhotoGallery_handleUpload file outcome =
     (case file of
        None \<Rightarrow> []
      | Some f \<Rightarrow>
          [SetState ''uploading'', Await ''uploadPhoto'']
          @ (case outcome of
               Returns result \<Rightarrow>
                 (if success result \<and> ActionResult.data result \<noteq> None
                  then [ToastSuccess (message result),
                        Optimistic \<lparr>type' = ''add'', item = ActionResult.data result,
                                    actionId = None\<rparr>,
                        Load]
                  else [ToastError (message result)])
             | Throws \<Rightarrow> [ToastError ''Failed to upload photo''])
          @ [SetState ''uploading'', SetState ''fileInput''])"

definition PhotoGallery_handleDelete :: "string \<Rightarrow> unit ActionResult \<Rightarrow> Photo Event list" where
  "PhotoGallery_handleDelete i result =
     [Optimistic \<lparr>type' = ''delete'', item = None, actionId = Some i\<rparr>, Await ''deletePhoto'']
     @ (if success result then [ToastSuccess (message result), Load]
        else [ToastError (message result), Load])"

definition PhotoGallery_handleSaveEdit ::
  "string \<Rightarrow> string \<Rightarrow> unit ActionResult \<Rightarrow> Photo Event list" where
  "PhotoGallery_handleSaveEdit i editName result =
     (if trim editName = [] then [ToastError ''Name cannot be empty'']
      else [Await ''updatePhoto'']
           @ (if success result
              then [ToastSuccess (message result), SetState ''editId'', SetState ''editName'', Load]
              else [ToastError (message result)]))"

subsection \<open>\<open>FoodReviewGallery\<close>\<close>

definition FoodReviewGallery_handleUpload ::
  "File option \<Rightarrow> FoodPhoto ActionResult Outcome \<Rightarrow> FoodPhoto Event list" where
  "FoodReviewGallery_handleUpload file outcome =
     (case file of
        None \<Rightarrow> []
      | Some f \<Rightarrow>
          [SetState ''uploading'', Await ''uploadFoodPhoto'']
          @ (case outcome of
               Returns result \<Rightarrow>
                 (if success result \<and> ActionResult.data result \<noteq> None
                  then [ToastSuccess (message result),
                        Optimistic \<lparr>type' = ''add'', item = ActionResult.data result,
                                    actionId = None\<rparr>,
                        Load]
                  else [ToastError (message result)])
             | Throws \<Rightarrow> [ToastError ''Failed to upload food photo''])
          @ [SetState ''uploading'', SetState ''fileInput''])"

definition FoodReviewGallery_handleDelete ::
  "string \<Rightarrow> unit ActionResult \<Rightarrow> FoodPhoto Event list" where
  "FoodReviewGallery_handleDelete i result =
     [Optimistic \<lparr>type' = ''delete'', item = None, actionId = Some i\<rparr>, Await ''deleteFoodPhoto'']
     @ (if success result then [ToastSuccess (message result), Load]
        else [ToastError (message result), Load])"

definition FoodReviewGallery_handleSaveEdit ::
  "string \<Rightarrow> string \<Rightarrow> unit ActionResult \<Rightarrow> FoodPhoto Event list" where
  "FoodReviewGallery_handleSaveEdit i editName result =
     (if trim editName = [] then [ToastError ''Name cannot be empty'']
      else [Await ''updateFoodPhoto'']
           @ (if success result
              then [ToastSuccess (message result), SetState ''editId'', SetState ''editName'', Load]
              else [ToastError (message result)]))"

section \<open>Auxiliary functions of the proofs\<close>

text \<open>
  The elements of a list whose \<open>id\<close> is neither in \<open>S\<close> nor carried by an earlier element:
  the recursive reading of the filter of \<open>uniqueNotes\<close>.
\<close>

fun firstOcc :: "string set \<Rightarrow> ('a Item_scheme) list \<Rightarrow> ('a Item_scheme) list" where
  "firstOcc S [] = []"
| "firstOcc S (x # xs) =
     (if id' x \<in> S then firstOcc S xs else x # firstOcc (insert (id' x) S) xs)"

text \<open>
  The same request with another text in every error thrown by the store: the same
  calls of the ORM throw, and \<open>f n\<close> rewrites what the \<open>n\<close>-th one throws.
\<close>

definition withErrorDetail :: "(nat \<Rightarrow> string \<Rightarrow> string) \<Rightarrow> Env \<Rightarrow> Env" where
  "withErrorDetail f env = env\<lparr>dbError := (\<lambda>n. map_option (f n) (dbError env n))\<rparr>"

text \<open>The (author, target) pairs of the stored reviews, one per review.\<close>

definition reviewPairs :: "Review list \<Rightarrow> (string \<times> string) list" where
  "reviewPairs rows = map (\<lambda>r. (profileId r, foodPhotoId r)) rows"

definition pokemonReviewPairs :: "PokemonReview list \<Rightarrow> (string \<times> string) list" where
  "pokemonReviewPairs rows = map (\<lambda>r. (profileId r, pokemonId r)) rows"

text \<open>What is stored: the tables and the buckets, without the log and the cache paths.\<close>

definition stored ::
  "World \<Rightarrow> Todo list \<times> Photo list \<times> FoodPhoto list \<times> Note list \<times> Review list \<times> Pokemon list
            \<times> PokemonReview list \<times> Profile list \<times> string list \<times> string list" where
  "stored w = (todoTable w, photoTable w, foodPhotoTable w, noteTable w, reviewTable w,
               pokemonTable w, pokemonReviewTable w, profileTable w, scicBucket w,
               foodReviewBucket w)"


section \<open>Properties of the reducers\<close>

lemma list_ex_id: "list_ex (\<lambda>p. id' p = k) xs = (k \<in> id' ` set xs)"
  by (auto simp: list_ex_iff)

lemma filter_absent_id:
  "k \<notin> id' ` set xs \<Longrightarrow> filter (\<lambda>p. Some (id' p) \<noteq> Some k) xs = xs"
  by (induction xs) auto

lemma filter_id_absent: "k \<notin> id' ` set xs \<Longrightarrow> filter (\<lambda>p. id' p = k) xs = []"
  by (induction xs) auto

text \<open>
  C1, as the code has it.  In the photo, food-photo and Pokemon galleries, an \<open>add\<close> whose
  item's id already occurs in the base list returns the base list; an \<open>add\<close> of an item
  whose id does not occur prepends it, a second \<open>add\<close> of the same item changes nothing, and
  the id then occurs exactly once.  (The reducers of \<open>TodoList\<close> and \<open>NotesList\<close> prepend
  without looking: see the counterexample.)
\<close>

theorem C1_add_guarded:
  "(id' photo \<in> id' ` set photos \<longrightarrow>
      PhotoGallery_reducer photos \<lparr>type' = ''add'', item = Some photo, actionId = a\<rparr> = photos)
 \<and> (id' photo2 \<notin> id' ` set photos \<longrightarrow>
      (let once = PhotoGallery_reducer photos \<lparr>type' = ''add'', item = Some photo2, actionId = a\<rparr>;
           twice = PhotoGallery_reducer once \<lparr>type' = ''add'', item = Some photo2, actionId = a\<rparr>
       in once = photo2 # photos \<and> twice = once
          \<and> length (filter (\<lambda>p. id' p = id' photo2) twice) = 1))
 \<and> (id' food \<in> id' ` set foodPhotos \<longrightarrow>
      FoodReviewGallery_reducer foodPhotos \<lparr>type' = ''add'', item = Some food, actionId = a\<rparr>
        = foodPhotos)
 \<and> (id' food2 \<notin> id' ` set foodPhotos \<longrightarrow>
      (let once = FoodReviewGallery_reducer foodPhotos \<lparr>type' = ''add'', item = Some food2, actionId = a\<rparr>;
           twice = FoodReviewGallery_reducer once \<lparr>type' = ''add'', item = Some food2, actionId = a\<rparr>
       in once = food2 # foodPhotos \<and> twice = once
          \<and> length (filter (\<lambda>p. id' p = id' food2) twice) = 1))
 \<and> (id' pok \<in> id' ` set pokemon \<longrightarrow>
      PokemonReviewGallery_reducer pokemon \<lparr>type' = ''add'', item = Some pok, actionId = a\<rparr>
        = pokemon)
 \<and> (id' pok2 \<notin> id' ` set pokemon \<longrightarrow>
      (let once = PokemonReviewGallery_reducer pokemon \<lparr>type' = ''add'', item = Some pok2, actionId = a\<rparr>;
           twice = PokemonReviewGallery_reducer once \<lparr>type' = ''add'', item = Some pok2, actionId = a\<rparr>
       in once = pok2 # pokemon \<and> twice = once
          \<and> length (filter (\<lambda>p. id' p = id' pok2) twice) = 1))"
  by (simp add: PhotoGallery_reducer_def FoodReviewGallery_reducer_def
      PokemonReviewGallery_reducer_def list_ex_id Let_def filter_id_absent)

theorem C1_add_guarded_witness:
  "(let p1 = \<lparr>id' = ''1'', created_at = 1, updated_at = 1, profileId = ''u'', name = ''a.png'',
               url = ''x'', size = Some 1, mime_type = Some ''image/png''\<rparr>;
        p2 = \<lparr>id' = ''2'', created_at = 2, updated_at = 2, profileId = ''u'', name = ''b.png'',
               url = ''y'', size = None, mime_type = None\<rparr>;
        f1 = \<lparr>id' = ''1'', created_at = 1, updated_at = 1, profileId = ''u'', name = ''a.png'',
               url = ''x'', size = Some 1, mime_type = Some ''image/png'', reviews_count = None\<rparr>;
        f2 = \<lparr>id' = ''2'', created_at = 2, updated_at = 2, profileId = ''v'', name = ''b.png'',
               url = ''y'', size = None, mime_type = None, reviews_count = Some 3\<rparr>;
        k1 = \<lparr>id' = ''1'', created_at = 1, updated_at = 1, pokemon_id = 25,
               pokemon_name = ''pikachu'', image_url = ''x'', types = [''electric''],
               pokemon_reviews_count = None\<rparr>;
        k2 = \<lparr>id' = ''2'', created_at = 2, updated_at = 2, pokemon_id = 1,
               pokemon_name = ''bulbasaur'', image_url = ''y'', types = [],
               pokemon_reviews_count = Some 0\<rparr>
    in id' p1 \<in> id' ` set [p1] \<and> id' p2 \<notin> id' ` set [p1]
       \<and> id' f1 \<in> id' ` set [f1] \<and> id' f2 \<notin> id' ` set [f1]
       \<and> id' k1 \<in> id' ` set [k1] \<and> id' k2 \<notin> id' ` set [k1]
       \<and> PhotoGallery_reducer [p1] \<lparr>type' = ''add'', item = Some p1, actionId = None\<rparr> = [p1]
       \<and> PhotoGallery_reducer
            (PhotoGallery_reducer [p1] \<lparr>type' = ''add'', item = Some p2, actionId = None\<rparr>)
            \<lparr>type' = ''add'', item = Some p2, actionId = None\<rparr> = [p2, p1]
       \<and> FoodReviewGallery_reducer [f1] \<lparr>type' = ''add'', item = Some f1, actionId = None\<rparr> = [f1]
       \<and> FoodReviewGallery_reducer
            (FoodReviewGallery_reducer [f1] \<lparr>type' = ''add'', item = Some f2, actionId = None\<rparr>)
            \<lparr>type' = ''add'', item = Some f2, actionId = None\<rparr> = [f2, f1]
       \<and> PokemonReviewGallery_reducer [k1] \<lparr>type' = ''add'', item = Some k1, actionId = None\<rparr>
            = [k1]
       \<and> PokemonReviewGallery_reducer
            (PokemonReviewGallery_reducer [k1] \<lparr>type' = ''add'', item = Some k2, actionId = None\<rparr>)
            \<lparr>type' = ''add'', item = Some k2, actionId = None\<rparr> = [k2, k1])"
  using C1_add_guarded[of
      "\<lparr>id' = ''1'', created_at = 1, updated_at = 1, profileId = ''u'', name = ''a.png'',
               url = ''x'', size = Some 1, mime_type = Some ''image/png''\<rparr>"
      "[\<lparr>id' = ''1'', created_at = 1, updated_at = 1, profileId = ''u'', name = ''a.png'',
               url = ''x'', size = Some 1, mime_type = Some ''image/png''\<rparr>]"
      None
      "\<lparr>id' = ''2'', created_at = 2, updated_at = 2, profileId = ''u'', name = ''b.png'',
               url = ''y'', size = None, mime_type = None\<rparr>"
      "\<lparr>id' = ''1'', created_at = 1, updated_at = 1, profileId = ''u'', name = ''a.png'',
               url = ''x'', size = Some 1, mime_type = Some ''image/png'', reviews_count = None\<rparr>"
      "[\<lparr>id' = ''1'', created_at = 1, updated_at = 1, profileId = ''u'', name = ''a.png'',
               url = ''x'', size = Some 1, mime_type = Some ''image/png'', reviews_count = None\<rparr>]"
      "\<lparr>id' = ''2'', created_at = 2, updated_at = 2, profileId = ''v'', name = ''b.png'',
               url = ''y'', size = None, mime_type = None, reviews_count = Some 3\<rparr>"
      "\<lparr>id' = ''1'', created_at = 1, updated_at = 1, pokemon_id = 25,
               pokemon_name = ''pikachu'', image_url = ''x'', types = [''electric''],
               pokemon_reviews_count = None\<rparr>"
      "[\<lparr>id' = ''1'', created_at = 1, updated_at = 1, pokemon_id = 25,
               pokemon_name = ''pikachu'', image_url = ''x'', types = [''electric''],
               pokemon_reviews_count = None\<rparr>]"
      "\<lparr>id' = ''2'', created_at = 2, updated_at = 2, pokemon_id = 1,
               pokemon_name = ''bulbasaur'', image_url = ''y'', types = [],
               pokemon_reviews_count = Some 0\<rparr>"]
  by (simp add: Let_def PhotoGallery_reducer_def FoodReviewGallery_reducer_def
      PokemonReviewGallery_reducer_def)

text \<open>
  The reducer of \<open>TodoList\<close> on the list holding the todo \<open>1\<close> and an \<open>add\<close> of that todo:
  the result holds it twice.
\<close>

theorem C1_counterexample:
  "TodoList_reducer
      [\<lparr>id' = ''1'', created_at = 0, updated_at = 0, profileId = ''u'', title = ''Buy milk'', completed = False, priority = ''medium''\<rparr>]
      \<lparr>type' = ''add'',
       item = Some \<lparr>id' = ''1'', created_at = 0, updated_at = 0, profileId = ''u'', title = ''Buy milk'', completed = False, priority = ''medium''\<rparr>,
       actionId = None\<rparr>
    = [\<lparr>id' = ''1'', created_at = 0, updated_at = 0, profileId = ''u'', title = ''Buy milk'', completed = False, priority = ''medium''\<rparr>,
       \<lparr>id' = ''1'', created_at = 0, updated_at = 0, profileId = ''u'', title = ''Buy milk'', completed = False, priority = ''medium''\<rparr>]"
  by (simp add: TodoList_reducer_def)

text \<open>
  C9.  In every reducer, a \<open>delete\<close> whose id occurs in no element of the list returns the
  list.  (\<open>PokemonReviewGallery\<close> has no \<open>delete\<close> case: the action falls to the default.)
\<close>

theorem C9_delete_absent:
  "(k \<notin> id' ` set todos \<longrightarrow>
      TodoList_reducer todos \<lparr>type' = ''delete'', item = it1, actionId = Some k\<rparr> = todos)
 \<and> (k \<notin> id' ` set nts \<longrightarrow>
      NotesList_reducer nts \<lparr>type' = ''delete'', item = it2, actionId = Some k\<rparr> = nts)
 \<and> (k \<notin> id' ` set photos \<longrightarrow>
      PhotoGallery_reducer photos \<lparr>type' = ''delete'', item = it3, actionId = Some k\<rparr> = photos)
 \<and> (k \<notin> id' ` set foodPhotos \<longrightarrow>
      FoodReviewGallery_reducer foodPhotos \<lparr>type' = ''delete'', item = it4, actionId = Some k\<rparr>
        = foodPhotos)
 \<and> (k \<notin> id' ` set pokemon \<longrightarrow>
      PokemonReviewGallery_reducer pokemon \<lparr>type' = ''delete'', item = it5, actionId = Some k\<rparr>
        = pokemon)"
  using filter_absent_id[of k todos] filter_absent_id[of k nts] filter_absent_id[of k photos]
    filter_absent_id[of k foodPhotos]
  by (simp add: TodoList_reducer_def NotesList_reducer_def PhotoGallery_reducer_def
      FoodReviewGallery_reducer_def PokemonReviewGallery_reducer_def)

theorem C9_delete_absent_witness:
  "(let t = \<lparr>id' = ''1'', created_at = 0, updated_at = 0, profileId = ''u'', title = ''Buy milk'',
              completed = False, priority = ''medium''\<rparr>;
        n = \<lparr>id' = ''1'', created_at = 0, updated_at = 0, profileId = ''u'', title = ''t'',
              content = ''c''\<rparr>;
        p = \<lparr>id' = ''1'', created_at = 1, updated_at = 1, profileId = ''u'', name = ''a.png'',
              url = ''x'', size = Some 1, mime_type = Some ''image/png''\<rparr>;
        f = \<lparr>id' = ''1'', created_at = 1, updated_at = 1, profileId = ''u'', name = ''a.png'',
              url = ''x'', size = Some 1, mime_type = Some ''image/png'', reviews_count = None\<rparr>;
        k = \<lparr>id' = ''1'', created_at = 1, updated_at = 1, pokemon_id = 25,
              pokemon_name = ''pikachu'', image_url = ''x'', types = [''electric''],
              pokemon_reviews_count = None\<rparr>
    in ''9'' \<notin> id' ` set [t] \<and> ''9'' \<notin> id' ` set [n] \<and> ''9'' \<notin> id' ` set [p]
       \<and> ''9'' \<notin> id' ` set [f] \<and> ''9'' \<notin> id' ` set [k]
       \<and> TodoList_reducer [t] \<lparr>type' = ''delete'', item = None, actionId = Some ''9''\<rparr> = [t]
       \<and> NotesList_reducer [n] \<lparr>type' = ''delete'', item = None, actionId = Some ''9''\<rparr> = [n]
       \<and> PhotoGallery_reducer [p] \<lparr>type' = ''delete'', item = None, actionId = Some ''9''\<rparr> = [p]
       \<and> FoodReviewGallery_reducer [f] \<lparr>type' = ''delete'', item = None, actionId = Some ''9''\<rparr> = [f]
       \<and> PokemonReviewGallery_reducer [k] \<lparr>type' = ''delete'', item = None, actionId = Some ''9''\<rparr> = [k])"
  using C9_delete_absent[of "''9''"
      "[\<lparr>id' = ''1'', created_at = 0, updated_at = 0, profileId = ''u'', title = ''Buy milk'',
              completed = False, priority = ''medium''\<rparr>]" None
      "[\<lparr>id' = ''1'', created_at = 0, updated_at = 0, profileId = ''u'', title = ''t'',
              content = ''c''\<rparr>]" None
      "[\<lparr>id' = ''1'', created_at = 1, updated_at = 1, profileId = ''u'', name = ''a.png'',
              url = ''x'', size = Some 1, mime_type = Some ''image/png''\<rparr>]" None
      "[\<lparr>id' = ''1'', created_at = 1, updated_at = 1, profileId = ''u'', name = ''a.png'',
              url = ''x'', size = Some 1, mime_type = Some ''image/png'', reviews_count = None\<rparr>]" None
      "[\<lparr>id' = ''1'', created_at = 1, updated_at = 1, pokemon_id = 25,
              pokemon_name = ''pikachu'', image_url = ''x'', types = [''electric''],
              pokemon_reviews_count = None\<rparr>]" None]
  by (simp add: Let_def)

section \<open>Properties of the deduplication\<close>

lemma findIndexFrom_skip:
  "\<forall>p\<in>set ps. \<not> P p \<Longrightarrow> findIndexFrom i P (ps @ ys) = findIndexFrom (i + int (length ps)) P ys"
  by (induction ps arbitrary: i) (auto simp: algebra_simps)

lemma findIndexFrom_hit:
  "\<exists>p\<in>set ps. P p \<Longrightarrow> i \<le> findIndexFrom i P (ps @ ys) \<and> findIndexFrom i P (ps @ ys) < i + int (length ps)"
proof (induction ps arbitrary: i)
  case Nil
  then show ?case by simp
next
  case (Cons a ps)
  show ?case
  proof (cases "P a")
    case True
    then show ?thesis by simp
  next
    case False
    with Cons.prems have "\<exists>p\<in>set ps. P p" by simp
    from Cons.IH[OF this, of "i + 1"] False show ?thesis by simp
  qed
qed

lemma findIndex_at:
  "(int (length ps) = findIndex (\<lambda>p. id' p = id' x) (ps @ x # xs)) = (id' x \<notin> id' ` set ps)"
proof (cases "\<exists>p\<in>set ps. id' p = id' x")
  case True
  from findIndexFrom_hit[OF this, of 0 "x # xs"]
  have lt: "findIndex (\<lambda>p. id' p = id' x) (ps @ x # xs) < int (length ps)"
    by (simp add: findIndex_def)
  from True obtain p where "p \<in> set ps" "id' p = id' x" by blast
  then have "id' x \<in> id' ` set ps" by (metis imageI)
  with lt show ?thesis by simp
next
  case False
  then have "\<forall>p\<in>set ps. \<not> id' p = id' x" by simp
  from findIndexFrom_skip[OF this, of 0 "x # xs"] False show ?thesis
    by (auto simp: findIndex_def)
qed

lemma filterFrom_firstOcc:
  "filterFrom (int (length ps)) (\<lambda>x index self. index = findIndex (\<lambda>p. id' p = id' x) self) (ps @ xs) xs
     = firstOcc (id' ` set ps) xs"
proof (induction xs arbitrary: ps)
  case Nil
  then show ?case by simp
next
  case (Cons x xs)
  have step: "filterFrom (int (length ps) + 1) (\<lambda>x index self. index = findIndex (\<lambda>p. id' p = id' x) self) (ps @ x # xs) xs
     = firstOcc (insert (id' x) (id' ` set ps)) xs"
    using Cons.IH[of "ps @ [x]"] by (simp add: algebra_simps)
  show ?case
    by (simp add: findIndex_at step insert_absorb)
qed

lemma uniqueBy_firstOcc:
  "filterIndexed (\<lambda>x index self. index = findIndex (\<lambda>p. id' p = id' x) self) xs = firstOcc {} xs"
  using filterFrom_firstOcc[of "[]" xs] by (simp add: filterIndexed_def)

lemma firstOcc_ids: "id' ` set (firstOcc S xs) = id' ` set xs - S"
  by (induction xs arbitrary: S) auto

lemma firstOcc_distinct: "distinct (map id' (firstOcc S xs))"
  by (induction xs arbitrary: S) (auto simp: firstOcc_ids)

lemma firstOcc_subseq: "subseq (firstOcc S xs) xs"
  by (induction xs arbitrary: S) auto

lemma firstOcc_find:
  "k \<notin> S \<Longrightarrow> find (\<lambda>p. id' p = k) (firstOcc S xs) = find (\<lambda>p. id' p = k) xs"
proof (induction xs arbitrary: S)
  case Nil
  then show ?case by simp
next
  case (Cons x xs)
  then show ?case by auto
qed

lemma firstOcc_once:
  "k \<in> id' ` set xs \<Longrightarrow> k \<notin> S \<Longrightarrow> length (filter (\<lambda>p. id' p = k) (firstOcc S xs)) = 1"
proof (induction xs arbitrary: S)
  case Nil
  then show ?case by simp
next
  case (Cons x xs)
  show ?case
  proof (cases "id' x = k")
    case True
    have "k \<notin> id' ` set (firstOcc (insert k S) xs)"
      by (simp add: firstOcc_ids)
    then have "filter (\<lambda>p. id' p = k) (firstOcc (insert k S) xs) = []"
      by (auto simp: filter_empty_conv)
    with True Cons.prems show ?thesis by simp
  next
    case False
    with Cons.prems have "k \<in> id' ` set xs" by auto
    with False Cons.prems Cons.IH show ?thesis by auto
  qed
qed


lemma unique_props:
  fixes xs :: "('a Item_scheme) list"
  defines "u \<equiv> filterIndexed (\<lambda>x index self. index = findIndex (\<lambda>p. id' p = id' x) self) xs"
  assumes k: "k \<in> id' ` set xs"
  shows "length (filter (\<lambda>p. id' p = k) u) = 1
       \<and> find (\<lambda>p. id' p = k) u = find (\<lambda>p. id' p = k) xs
       \<and> subseq u xs"
  unfolding u_def uniqueBy_firstOcc
  using k by (simp add: firstOcc_once firstOcc_find firstOcc_subseq)


text \<open>
  C4, as the code has it.  In the notes list and in the photo, food-photo and Pokemon
  galleries, the list shown is the optimistic list filtered by first occurrence of the id:
  every id of the input occurs in it exactly once, the element shown for an id is the first
  element of the input with that id, and the list shown is a subsequence of the input.
  (\<open>TodoList\<close> has no such filter: see the counterexample.)
\<close>

theorem C4_dedup:
  "(k \<in> id' ` set notes \<longrightarrow>
      length (filter (\<lambda>p. id' p = k) (uniqueNotes notes)) = 1
      \<and> find (\<lambda>p. id' p = k) (uniqueNotes notes) = find (\<lambda>p. id' p = k) notes
      \<and> subseq (uniqueNotes notes) notes)
 \<and> (k \<in> id' ` set photos \<longrightarrow>
      length (filter (\<lambda>p. id' p = k) (PhotoGallery_uniquePhotos photos)) = 1
      \<and> find (\<lambda>p. id' p = k) (PhotoGallery_uniquePhotos photos) = find (\<lambda>p. id' p = k) photos
      \<and> subseq (PhotoGallery_uniquePhotos photos) photos)
 \<and> (k \<in> id' ` set foodPhotos \<longrightarrow>
      length (filter (\<lambda>p. id' p = k) (FoodReviewGallery_uniquePhotos foodPhotos)) = 1
      \<and> find (\<lambda>p. id' p = k) (FoodReviewGallery_uniquePhotos foodPhotos) = find (\<lambda>p. id' p = k) foodPhotos
      \<and> subseq (FoodReviewGallery_uniquePhotos foodPhotos) foodPhotos)
 \<and> (k \<in> id' ` set pokemon \<longrightarrow>
      length (filter (\<lambda>p. id' p = k) (uniquePokemon pokemon)) = 1
      \<and> find (\<lambda>p. id' p = k) (uniquePokemon pokemon) = find (\<lambda>p. id' p = k) pokemon
      \<and> subseq (uniquePokemon pokemon) pokemon)"
  unfolding uniqueNotes_def PhotoGallery_uniquePhotos_def FoodReviewGallery_uniquePhotos_def
    uniquePokemon_def
  using unique_props[where k = k and xs = "notes"] unique_props[where k = k and xs = photos]
    unique_props[where k = k and xs = foodPhotos] unique_props[where k = k and xs = pokemon]
  by blast


theorem C4_dedup_witness:
  "(let notes = [\<lparr>id' = ''k'', created_at = 2, updated_at = 2, profileId = ''u'', title = ''first'', content = ''a''\<rparr>,
                 \<lparr>id' = ''j'', created_at = 1, updated_at = 1, profileId = ''u'', title = ''other'', content = ''b''\<rparr>,
                 \<lparr>id' = ''k'', created_at = 0, updated_at = 0, profileId = ''u'', title = ''second'', content = ''c''\<rparr>];
        photos = [\<lparr>id' = ''k'', created_at = 2, updated_at = 2, profileId = ''u'', name = ''a.png'', url = ''x'', size = Some 1, mime_type = Some ''image/png''\<rparr>,
                  \<lparr>id' = ''k'', created_at = 1, updated_at = 1, profileId = ''u'', name = ''b.png'', url = ''y'', size = None, mime_type = None\<rparr>];
        foodPhotos = [\<lparr>id' = ''k'', created_at = 2, updated_at = 2, profileId = ''u'', name = ''a.png'', url = ''x'', size = Some 1, mime_type = Some ''image/png'', reviews_count = Some 0\<rparr>,
                  \<lparr>id' = ''k'', created_at = 1, updated_at = 1, profileId = ''v'', name = ''b.png'', url = ''y'', size = None, mime_type = None, reviews_count = None\<rparr>];
        pokemon = [\<lparr>id' = ''k'', created_at = 2, updated_at = 2, pokemon_id = 25, pokemon_name = ''pikachu'', image_url = ''x'', types = [''electric''], pokemon_reviews_count = None\<rparr>,
                   \<lparr>id' = ''k'', created_at = 1, updated_at = 1, pokemon_id = 25, pokemon_name = ''pikachu'', image_url = ''y'', types = [], pokemon_reviews_count = None\<rparr>]
    in ''k'' \<in> id' ` set notes \<and> ''k'' \<in> id' ` set photos \<and> ''k'' \<in> id' ` set foodPhotos
       \<and> ''k'' \<in> id' ` set pokemon
       \<and> uniqueNotes notes = [notes ! 0, notes ! 1]
       \<and> length (filter (\<lambda>p. id' p = ''k'') (uniqueNotes notes)) = 1
       \<and> find (\<lambda>p. id' p = ''k'') (uniqueNotes notes) = Some (notes ! 0)
       \<and> length (filter (\<lambda>p. id' p = ''k'') (PhotoGallery_uniquePhotos photos)) = 1
       \<and> length (filter (\<lambda>p. id' p = ''k'') (FoodReviewGallery_uniquePhotos foodPhotos)) = 1
       \<and> length (filter (\<lambda>p. id' p = ''k'') (uniquePokemon pokemon)) = 1)"
  using C4_dedup[of "''k''"
        "[\<lparr>id' = ''k'', created_at = 2, updated_at = 2, profileId = ''u'', title = ''first'', content = ''a''\<rparr>,
         \<lparr>id' = ''j'', created_at = 1, updated_at = 1, profileId = ''u'', title = ''other'', content = ''b''\<rparr>,
         \<lparr>id' = ''k'', created_at = 0, updated_at = 0, profileId = ''u'', title = ''second'', content = ''c''\<rparr>]"
        "[\<lparr>id' = ''k'', created_at = 2, updated_at = 2, profileId = ''u'', name = ''a.png'', url = ''x'', size = Some 1, mime_type = Some ''image/png''\<rparr>,
                  \<lparr>id' = ''k'', created_at = 1, updated_at = 1, profileId = ''u'', name = ''b.png'', url = ''y'', size = None, mime_type = None\<rparr>]"
        "[\<lparr>id' = ''k'', created_at = 2, updated_at = 2, profileId = ''u'', name = ''a.png'', url = ''x'', size = Some 1, mime_type = Some ''image/png'', reviews_count = Some 0\<rparr>,
                  \<lparr>id' = ''k'', created_at = 1, updated_at = 1, profileId = ''v'', name = ''b.png'', url = ''y'', size = None, mime_type = None, reviews_count = None\<rparr>]"
        "[\<lparr>id' = ''k'', created_at = 2, updated_at = 2, pokemon_id = 25, pokemon_name = ''pikachu'', image_url = ''x'', types = [''electric''], pokemon_reviews_count = None\<rparr>,
                   \<lparr>id' = ''k'', created_at = 1, updated_at = 1, pokemon_id = 25, pokemon_name = ''pikachu'', image_url = ''y'', types = [], pokemon_reviews_count = None\<rparr>]"]
  by (simp add: Let_def uniqueNotes_def filterIndexed_def findIndex_def)


text \<open>
  \<open>TodoList\<close> given a list with the id \<open>k\<close> twice shows two rows with that id.
\<close>

theorem C4_counterexample:
  "length (filter (\<lambda>p. id' p = ''k'')
     (TodoList_rendered
        [\<lparr>id' = ''k'', created_at = 2, updated_at = 2, profileId = ''u'', title = ''first'', completed = False, priority = ''low''\<rparr>,
         \<lparr>id' = ''k'', created_at = 1, updated_at = 1, profileId = ''u'', title = ''second'', completed = True, priority = ''high''\<rparr>])) = 2"
  by (simp add: TodoList_rendered_def)

end
